theory Spec2Isabelle
  imports Complex_Main
begin

section \<open>Numbers of the script\<close>

text \<open>
  The script \<^verbatim>\<open>static/main.js\<close> computes with JavaScript numbers. A number is modelled
  as one of the three non-finite values or a finite value carried as an exact rational:
  finite arithmetic is exact here, so the rounding and the overflow of IEEE-754 doubles
  are not part of the model, while every branch that the code takes on \<^verbatim>\<open>NaN\<close> and on the
  infinities is. The two zeros are one value: the only division whose divisor can be zero
  is \<^verbatim>\<open>100/Math.abs(n)\<close>, where the divisor is the positive zero.
\<close>

datatype jsnum = NaN | PInf | NInf | Fin rat

fun isFinite :: "jsnum \<Rightarrow> bool" where
  "isFinite (Fin x) = True"
| "isFinite n = False"

text \<open>\<^verbatim>\<open>!x\<close> on a number: true for zero and for \<^verbatim>\<open>NaN\<close>.\<close>

fun falsy :: "jsnum \<Rightarrow> bool" where
  "falsy NaN = True"
| "falsy (Fin x) = (x = 0)"
| "falsy n = False"

fun js_neg :: "jsnum \<Rightarrow> jsnum" where
  "js_neg NaN = NaN"
| "js_neg PInf = NInf"
| "js_neg NInf = PInf"
| "js_neg (Fin x) = Fin (- x)"

text \<open>The comparisons \<^verbatim>\<open><\<close>, \<^verbatim>\<open><=\<close>, \<^verbatim>\<open>>\<close>, \<^verbatim>\<open>>=\<close>: false as soon as one side is \<^verbatim>\<open>NaN\<close>.\<close>

fun js_lt :: "jsnum \<Rightarrow> jsnum \<Rightarrow> bool" where
  "js_lt NaN y = False"
| "js_lt x NaN = False"
| "js_lt PInf y = False"
| "js_lt x NInf = False"
| "js_lt NInf y = True"
| "js_lt x PInf = True"
| "js_lt (Fin x) (Fin y) = (x < y)"

definition js_le :: "jsnum \<Rightarrow> jsnum \<Rightarrow> bool" where
  "js_le x y = (x \<noteq> NaN \<and> y \<noteq> NaN \<and> (x = y \<or> js_lt x y))"

definition js_gt :: "jsnum \<Rightarrow> jsnum \<Rightarrow> bool" where
  "js_gt x y = js_lt y x"

definition js_ge :: "jsnum \<Rightarrow> jsnum \<Rightarrow> bool" where
  "js_ge x y = js_le y x"

fun js_add :: "jsnum \<Rightarrow> jsnum \<Rightarrow> jsnum" where
  "js_add NaN y = NaN"
| "js_add x NaN = NaN"
| "js_add PInf NInf = NaN"
| "js_add NInf PInf = NaN"
| "js_add PInf y = PInf"
| "js_add x PInf = PInf"
| "js_add NInf y = NInf"
| "js_add x NInf = NInf"
| "js_add (Fin x) (Fin y) = Fin (x + y)"

definition js_sub :: "jsnum \<Rightarrow> jsnum \<Rightarrow> jsnum" where
  "js_sub x y = js_add x (js_neg y)"

text \<open>An infinity times zero or times \<^verbatim>\<open>NaN\<close> is \<^verbatim>\<open>NaN\<close>; otherwise the signs multiply.\<close>

definition inf_times :: "jsnum \<Rightarrow> jsnum" where
  "inf_times y = (if js_lt (Fin 0) y then PInf else if js_lt y (Fin 0) then NInf else NaN)"

fun js_mul :: "jsnum \<Rightarrow> jsnum \<Rightarrow> jsnum" where
  "js_mul NaN y = NaN"
| "js_mul x NaN = NaN"
| "js_mul PInf y = inf_times y"
| "js_mul NInf y = js_neg (inf_times y)"
| "js_mul x PInf = inf_times x"
| "js_mul x NInf = js_neg (inf_times x)"
| "js_mul (Fin x) (Fin y) = Fin (x * y)"

text \<open>
  Division: an infinity by an infinity and zero by zero are \<^verbatim>\<open>NaN\<close>, a finite value by
  an infinity is zero, and a non-zero finite value by (positive) zero is the infinity of
  the dividend's sign.
\<close>

fun js_div :: "jsnum \<Rightarrow> jsnum \<Rightarrow> jsnum" where
  "js_div NaN y = NaN"
| "js_div x NaN = NaN"
| "js_div PInf (Fin y) = (if 0 \<le> y then PInf else NInf)"
| "js_div NInf (Fin y) = (if 0 \<le> y then NInf else PInf)"
| "js_div PInf y = NaN"
| "js_div NInf y = NaN"
| "js_div (Fin x) PInf = Fin 0"
| "js_div (Fin x) NInf = Fin 0"
| "js_div (Fin x) (Fin y) =
     (if y = 0 then (if 0 < x then PInf else if x < 0 then NInf else NaN)
      else Fin (x / y))"

fun Math_abs :: "jsnum \<Rightarrow> jsnum" where
  "Math_abs NaN = NaN"
| "Math_abs (Fin x) = Fin \<bar>x\<bar>"
| "Math_abs n = PInf"

text \<open>\<^verbatim>\<open>Math.max\<close> and \<^verbatim>\<open>Math.min\<close> of two numbers: \<^verbatim>\<open>NaN\<close> if either is.\<close>

definition Math_max :: "jsnum \<Rightarrow> jsnum \<Rightarrow> jsnum" where
  "Math_max x y = (if x = NaN \<or> y = NaN then NaN else if js_lt x y then y else x)"

definition Math_min :: "jsnum \<Rightarrow> jsnum \<Rightarrow> jsnum" where
  "Math_min x y = (if x = NaN \<or> y = NaN then NaN else if js_lt y x then y else x)"

text \<open>\<^verbatim>\<open>Math.round\<close>: the nearest integer, a tie going up; non-finite values pass.\<close>

fun Math_round :: "jsnum \<Rightarrow> jsnum" where
  "Math_round (Fin x) = Fin (of_int \<lfloor>x + 1 / 2\<rfloor>)"
| "Math_round n = n"

text \<open>
  \<^verbatim>\<open>+x.toFixed(f)\<close>, the number read back from the fixed-point text of \<open>x\<close>.
  \<^verbatim>\<open>toFixed\<close> writes the sign, then the integer \<open>n\<close> for which \<open>n / 10^f\<close> is nearest to
  \<open>\<bar>x\<bar>\<close>, the larger \<open>n\<close> on a tie, with \<open>f\<close> digits after the point; the unary plus
  reads that text back. \<^verbatim>\<open>NaN\<close> and the infinities are written by name and read back
  unchanged. (From \<open>10^21\<close> on \<^verbatim>\<open>toFixed\<close> writes the number in full instead, which also
  reads back unchanged; a double of that size is an integer, so that rounding to \<open>f\<close>
  places is the identity on it as well.) The text itself is \<open>toFixed\<close> below, and
  \<open>toFixed_reads_back\<close> relates the two.
\<close>

definition fixed_digits :: "nat \<Rightarrow> rat \<Rightarrow> int" where
  "fixed_digits f x = \<lfloor>x * 10 ^ f + 1 / 2\<rfloor>"

definition fixed_value :: "nat \<Rightarrow> rat \<Rightarrow> rat" where
  "fixed_value f x = of_int (fixed_digits f x) / 10 ^ f"

fun plus_toFixed :: "nat \<Rightarrow> jsnum \<Rightarrow> jsnum" where
  "plus_toFixed f (Fin x) =
     (if x < 0 then Fin (- fixed_value f (- x)) else Fin (fixed_value f x))"
| "plus_toFixed f n = n"

section \<open>Text read as a number\<close>

text \<open>
  \<^verbatim>\<open>Number(s)\<close> and \<^verbatim>\<open>parseFloat(s)\<close> on a string \<open>s\<close>, over ASCII text. Both read the
  decimal literals of the language (an optional sign, then \<^verbatim>\<open>Infinity\<close> or digits with an
  optional fraction and an optional exponent). \<^verbatim>\<open>Number\<close> strips white space at both
  ends, reads the empty text as zero, accepts the prefixed forms \<^verbatim>\<open>0x\<close>, \<^verbatim>\<open>0o\<close> and
  \<^verbatim>\<open>0b\<close>, and yields \<^verbatim>\<open>NaN\<close> unless the whole text is a literal; \<^verbatim>\<open>parseFloat\<close> strips
  leading white space and reads the longest prefix that is a decimal literal.
\<close>

definition is_ws :: "char \<Rightarrow> bool" where
  "is_ws c = (c \<in> set [CHR 0x20, CHR 0x09, CHR 0x0A, CHR 0x0B, CHR 0x0C, CHR 0x0D])"

definition trim :: "string \<Rightarrow> string" where
  "trim s = rev (dropWhile is_ws (rev (dropWhile is_ws s)))"

definition char_code :: "char \<Rightarrow> nat" where
  "char_code c = of_char c"

definition is_digit :: "char \<Rightarrow> bool" where
  "is_digit c = (48 \<le> char_code c \<and> char_code c \<le> 57)"

text \<open>The value of a character as a digit in the given radix, if it is one.\<close>

definition radix_digit :: "nat \<Rightarrow> char \<Rightarrow> nat option" where
  "radix_digit r c =
     (let k = char_code c;
          v = (if 48 \<le> k \<and> k \<le> 57 then k - 48
               else if 97 \<le> k \<and> k \<le> 122 then k - 87
               else if 65 \<le> k \<and> k \<le> 90 then k - 55
               else r)
      in if v < r then Some v else None)"

fun radix_acc :: "nat \<Rightarrow> nat \<Rightarrow> string \<Rightarrow> nat option" where
  "radix_acc r acc [] = Some acc"
| "radix_acc r acc (c # cs) =
     (case radix_digit r c of None \<Rightarrow> None | Some v \<Rightarrow> radix_acc r (acc * r + v) cs)"

definition radix_value :: "nat \<Rightarrow> string \<Rightarrow> nat option" where
  "radix_value r ds = (if ds = [] then None else radix_acc r 0 ds)"

definition dec_value :: "string \<Rightarrow> nat" where
  "dec_value ds = foldl (\<lambda>acc c. acc * 10 + (char_code c - 48)) 0 ds"

definition nondecimal :: "string \<Rightarrow> nat option" where
  "nondecimal s =
     (case s of
        c0 # c1 # ds \<Rightarrow>
          if c0 \<noteq> CHR ''0'' then None
          else if c1 = CHR ''x'' \<or> c1 = CHR ''X'' then radix_value 16 ds
          else if c1 = CHR ''o'' \<or> c1 = CHR ''O'' then radix_value 8 ds
          else if c1 = CHR ''b'' \<or> c1 = CHR ''B'' then radix_value 2 ds
          else None
      | _ \<Rightarrow> None)"

definition split_sign :: "string \<Rightarrow> rat \<times> string" where
  "split_sign s =
     (case s of
        [] \<Rightarrow> (1, s)
      | c # t \<Rightarrow> if c = CHR ''+'' then (1, t) else if c = CHR ''-'' then (- 1, t) else (1, s))"

text \<open>
  An exponent part is read only when it is complete (\<^verbatim>\<open>e\<close>, an optional sign, at least
  one digit); the result is the factor and the text left over.
\<close>

definition exponent_part :: "string \<Rightarrow> rat \<times> string" where
  "exponent_part s =
     (case s of
        [] \<Rightarrow> (1, s)
      | c # t \<Rightarrow>
          if c = CHR ''e'' \<or> c = CHR ''E'' then
            (let (sg, u) = split_sign t; ds = takeWhile is_digit u
             in if ds = [] then (1, s)
                else if sg < 0 then (1 / 10 ^ dec_value ds, dropWhile is_digit u)
                else (10 ^ dec_value ds, dropWhile is_digit u))
          else (1, s))"

definition unsigned_decimal :: "string \<Rightarrow> (rat \<times> string) option" where
  "unsigned_decimal s =
     (let ip = takeWhile is_digit s; r1 = dropWhile is_digit s;
          (fp, r2) = (case r1 of
                        [] \<Rightarrow> ([], r1)
                      | c # t \<Rightarrow> if c = CHR ''.'' then (takeWhile is_digit t, dropWhile is_digit t)
                                 else ([], r1))
      in if ip = [] \<and> fp = [] then None
         else (let (e, r3) = exponent_part r2
               in Some (of_nat (dec_value (ip @ fp)) / 10 ^ length fp * e, r3)))"

definition str_decimal :: "string \<Rightarrow> (jsnum \<times> string) option" where
  "str_decimal s =
     (let (sg, t) = split_sign s
      in if take 8 t = ''Infinity'' then Some (if sg < 0 then NInf else PInf, drop 8 t)
         else (case unsigned_decimal t of
                 None \<Rightarrow> None
               | Some (v, r) \<Rightarrow> Some (Fin (sg * v), r)))"

definition parseFloat :: "string \<Rightarrow> jsnum" where
  "parseFloat s = (case str_decimal (dropWhile is_ws s) of None \<Rightarrow> NaN | Some (v, r) \<Rightarrow> v)"

definition StringToNumber :: "string \<Rightarrow> jsnum" where
  "StringToNumber s =
     (let t = trim s
      in if t = [] then Fin 0
         else (case nondecimal t of
                 Some n \<Rightarrow> Fin (of_nat n)
               | None \<Rightarrow> (case str_decimal t of
                            None \<Rightarrow> NaN
                          | Some (v, r) \<Rightarrow> if r = [] then v else NaN)))"

text \<open>The values the script passes around: numbers and the text of form fields.\<close>

datatype jsval = JNum jsnum | JStr string

fun Number :: "jsval \<Rightarrow> jsnum" where
  "Number (JNum n) = n"
| "Number (JStr s) = StringToNumber s"

section \<open>The two calculations\<close>

text \<open>
  \<^verbatim>\<open>americanToDecimal\<close> (lines 2 to 7); \<open>None\<close> is the \<^verbatim>\<open>null\<close> it returns.
\<close>

definition americanToDecimal :: "jsval \<Rightarrow> jsnum option" where
  "americanToDecimal a =
     (let n = Number a
      in if \<not> isFinite n then None
         else if js_gt n (Fin 0) then Some (plus_toFixed 4 (js_add (js_div n (Fin 100)) (Fin 1)))
         else Some (plus_toFixed 4 (js_add (js_div (Fin 100) (Math_abs n)) (Fin 1))))"

text \<open>
  \<^verbatim>\<open>computeKelly\<close> (lines 10 to 21). \<open>kelly_f\<close> is the local \<^verbatim>\<open>f\<close> after line 15 and
  \<open>kelly_recommended\<close> the local \<^verbatim>\<open>recommended\<close> after line 19.
\<close>

definition kelly_f :: "jsnum \<Rightarrow> jsnum \<Rightarrow> jsnum" where
  "kelly_f b prob =
     Math_max (Fin 0) (js_div (js_sub (js_mul b prob) (js_sub (Fin 1) prob)) b)"

definition kelly_recommended :: "jsnum \<Rightarrow> jsnum \<Rightarrow> jsnum \<Rightarrow> jsnum" where
  "kelly_recommended bankroll percentCap f =
     (let rawStake = js_mul f bankroll;
          cap = js_mul percentCap bankroll;
          recommended = Math_min rawStake cap
      in Math_max recommended (Fin (1 / 10)))"

definition computeKelly :: "jsnum \<Rightarrow> jsnum \<Rightarrow> jsnum \<Rightarrow> jsnum \<Rightarrow> jsnum" where
  "computeKelly bankroll percentCap odds prob =
     (if falsy odds \<or> falsy prob \<or> js_le odds (Fin 0) \<or> js_le prob (Fin 0) \<or> js_ge prob (Fin 1)
      then Fin 0
      else (let b = js_sub odds (Fin 1)
            in if js_le b (Fin 0) then Fin 0
               else (let f = kelly_f b prob;
                         recommended = kelly_recommended bankroll percentCap f
                     in js_div (Math_round (js_mul recommended (Fin 100))) (Fin 100))))"


section \<open>Numbers written as text\<close>

text \<open>
  \<^verbatim>\<open>String(x)\<close> of a number, as an assignment to \<^verbatim>\<open>textContent\<close> or \<^verbatim>\<open>value\<close> makes it.
  The non-finite values are written by name. The text of a finite value is the shortest
  one that reads back as the same double, a notion the exact values of this model do not
  have: it is the parameter \<open>ts\<close>.
\<close>

definition ToString :: "(rat \<Rightarrow> string) \<Rightarrow> jsnum \<Rightarrow> string" where
  "ToString ts x =
     (case x of NaN \<Rightarrow> ''NaN'' | PInf \<Rightarrow> ''Infinity'' | NInf \<Rightarrow> ''-Infinity'' | Fin q \<Rightarrow> ts q)"

definition digit_char :: "nat \<Rightarrow> char" where
  "digit_char k = char_of (48 + k)"

fun digits_of :: "nat \<Rightarrow> string" where
  "digits_of n = (if n < 10 then [digit_char n] else digits_of (n div 10) @ [digit_char (n mod 10)])"

declare digits_of.simps [simp del]

text \<open>
  \<^verbatim>\<open>x.toFixed(f)\<close> as text: the sign, the digits of \<open>fixed_digits f \<bar>x\<bar>\<close> filled with
  zeros on the left to \<open>f + 1\<close> digits, and a point before the last \<open>f\<close> of them.
\<close>

definition toFixed :: "(rat \<Rightarrow> string) \<Rightarrow> nat \<Rightarrow> jsnum \<Rightarrow> string" where
  "toFixed ts f x =
     (case x of
        Fin q \<Rightarrow>
          (let s = (if q < 0 then ''-'' else []);
               y = \<bar>q\<bar>
           in if 10 ^ 21 \<le> y then s @ ts y
              else (let m = digits_of (nat (fixed_digits f y));
                        m = replicate (f + 1 - length m) CHR ''0'' @ m
                    in if f = 0 then s @ m
                       else s @ take (length m - f) m @ ''.'' @ drop (length m - f) m))
      | _ \<Rightarrow> ToString ts x)"

section \<open>The page and its handlers\<close>

text \<open>
  An element carries the two properties the script touches, \<^verbatim>\<open>value\<close> (here \<open>val\<close>)
  and \<^verbatim>\<open>textContent\<close>. The document maps an id to its element; \<open>None\<close> is the \<^verbatim>\<open>null\<close>
  of \<^verbatim>\<open>getElementById\<close>. Reading or writing a property of \<^verbatim>\<open>null\<close> throws: a handler
  ends \<open>Threw\<close> there, with the writes made so far in place. What a handler does besides
  writing to the page is the list of its effects.
\<close>

record element =
  val :: string
  textContent :: string

type_synonym document = "string \<Rightarrow> element option"

datatype completion = Returned | Threw

datatype effect = Alert string | PreventDefault | Fetch string "(string \<times> string) list"

text \<open>\<^verbatim>\<open>s || t\<close> on strings: the empty string is the falsy one.\<close>

definition or_else :: "string \<Rightarrow> string \<Rightarrow> string" where
  "or_else s t = (if s = [] then t else s)"

definition setValue :: "document \<Rightarrow> string \<Rightarrow> string \<Rightarrow> document option" where
  "setValue d i v = (case d i of None \<Rightarrow> None | Some e \<Rightarrow> Some (d(i \<mapsto> e\<lparr>val := v\<rparr>)))"

definition setText :: "document \<Rightarrow> string \<Rightarrow> string \<Rightarrow> document option" where
  "setText d i v = (case d i of None \<Rightarrow> None | Some e \<Rightarrow> Some (d(i \<mapsto> e\<lparr>textContent := v\<rparr>)))"

fun setValues :: "document \<Rightarrow> (string \<times> string) list \<Rightarrow> document \<times> completion" where
  "setValues d [] = (d, Returned)"
| "setValues d ((i, v) # r) =
     (case setValue d i v of None \<Rightarrow> (d, Threw) | Some d' \<Rightarrow> setValues d' r)"

text \<open>The dash U+2014 of the sentinel, as its three UTF-8 bytes.\<close>

definition em_dash :: string where
  "em_dash = [CHR 0xE2, CHR 0x80, CHR 0x94]"

text \<open>
  Lines 51 and 52: the bankroll and the cap fraction, read once when the page has loaded.
\<close>

definition page_settings :: "document \<Rightarrow> (jsnum \<times> jsnum) option" where
  "page_settings d =
     (case d ''bankroll_value'' of
        None \<Rightarrow> None
      | Some be \<Rightarrow>
          (case d ''percent_cap_value'' of
             None \<Rightarrow> None
           | Some ce \<Rightarrow>
               Some (parseFloat (or_else (textContent be) ''0''),
                     parseFloat (or_else (textContent ce) ''0.02''))))"

text \<open>
  \<^verbatim>\<open>updateRecommended\<close> (lines 54 to 66). \<open>show_sentinel\<close> is the body of the
  \<^verbatim>\<open>if\<close> (lines 58 to 60) and \<open>show_recommended\<close> the rest (lines 62 to 65). The elements
  that the closure holds (\<^verbatim>\<open>aInput\<close>, \<^verbatim>\<open>probInput\<close>, \<^verbatim>\<open>outSpan\<close>, \<^verbatim>\<open>recommendedSpan\<close>) are
  looked up by their ids: the script never removes an element, so that an id names the same
  element at every call.
\<close>

definition show_sentinel :: "document \<Rightarrow> document \<times> completion" where
  "show_sentinel d =
     (case setText d ''recommended_stake'' em_dash of
        None \<Rightarrow> (d, Threw)
      | Some d1 \<Rightarrow>
          (case setValue d1 ''odds_hidden'' [] of
             None \<Rightarrow> (d1, Threw)
           | Some d2 \<Rightarrow> (d2, Returned)))"

definition show_recommended ::
  "(rat \<Rightarrow> string) \<Rightarrow> jsnum \<Rightarrow> jsnum \<Rightarrow> jsnum \<Rightarrow> jsnum \<Rightarrow> document \<Rightarrow> document \<times> completion" where
  "show_recommended ts bankroll percentCap dec p d =
     (case setText d ''converted_decimal'' (ToString ts dec) of
        None \<Rightarrow> (d, Threw)
      | Some d1 \<Rightarrow>
          (let rec = computeKelly bankroll percentCap dec p
           in case setText d1 ''recommended_stake'' (''$'' @ toFixed ts 2 rec) of
                None \<Rightarrow> (d1, Threw)
              | Some d2 \<Rightarrow>
                  (case setValue d2 ''odds_hidden'' (ToString ts dec) of
                     None \<Rightarrow> (d2, Threw)
                   | Some d3 \<Rightarrow> (d3, Returned))))"

definition updateRecommended ::
  "(rat \<Rightarrow> string) \<Rightarrow> jsnum \<Rightarrow> jsnum \<Rightarrow> document \<Rightarrow> document \<times> completion" where
  "updateRecommended ts bankroll percentCap d =
     (case d ''american_odds'' of
        None \<Rightarrow> (d, Threw)
      | Some aInput \<Rightarrow>
          (let dec = americanToDecimal (JStr (val aInput))
           in case d ''prob'' of
                None \<Rightarrow> (d, Threw)
              | Some probInput \<Rightarrow>
                  (let p = parseFloat (val probInput)
                   in case dec of
                        None \<Rightarrow> show_sentinel d
                      | Some n \<Rightarrow>
                          if \<not> isFinite p then show_sentinel d
                          else show_recommended ts bankroll percentCap n p d)))"

text \<open>
  \<^verbatim>\<open>updateEmpiricalInfo\<close> (lines 24 to 43), as far as the request it sends; the reply is
  handled later and only writes to the element \<^verbatim>\<open>empirical_info\<close>.
\<close>

definition field_or :: "document \<Rightarrow> string \<Rightarrow> string \<Rightarrow> string" where
  "field_or d i dflt = (case d i of None \<Rightarrow> dflt | Some e \<Rightarrow> or_else (val e) dflt)"

definition updateEmpiricalInfo :: "document \<Rightarrow> effect list" where
  "updateEmpiricalInfo d =
     [Fetch ''/api/empirical_info''
        [(''sport'', field_or d ''sport'' []),
         (''bet_type'', field_or d ''bet_type'' []),
         (''prob'', field_or d ''prob'' ''0.5'')]]"

text \<open>
  The \<^verbatim>\<open>submit\<close> handler of \<^verbatim>\<open>betForm\<close> (lines 80 to 98): \<open>submit_reads\<close> is lines 81 to 86,
  the six reads in their order.
\<close>

definition submit_reads ::
  "document \<Rightarrow> (string \<times> string \<times> string \<times> string \<times> string \<times> string) option" where
  "submit_reads d =
     (case d ''bet_name'' of None \<Rightarrow> None | Some e1 \<Rightarrow>
     (case d ''odds_hidden'' of None \<Rightarrow> None | Some e2 \<Rightarrow>
     (case d ''prob'' of None \<Rightarrow> None | Some e3 \<Rightarrow>
     (case d ''actual_stake'' of None \<Rightarrow> None | Some e4 \<Rightarrow>
     (case d ''sport'' of None \<Rightarrow> None | Some e5 \<Rightarrow>
     (case d ''bet_type'' of None \<Rightarrow> None | Some e6 \<Rightarrow>
        Some (val e1, val e2, val e3, val e4,
              or_else (val e5) [], or_else (val e6) ''Moneyline'')))))))"

definition betForm_submit :: "document \<Rightarrow> document \<times> effect list \<times> completion" where
  "betForm_submit d =
     (case submit_reads d of
        None \<Rightarrow> (d, [], Threw)
      | Some (name, odds, prob, amount, sport, btype) \<Rightarrow>
          if name = [] \<or> odds = [] \<or> prob = [] \<or> amount = []
          then (d, [Alert ''Please fill in all fields.'', PreventDefault], Returned)
          else (case setValues d [(''form_name'', name), (''form_odds'', odds),
                                  (''form_prob'', prob), (''form_stake'', amount),
                                  (''form_sport'', sport), (''form_type'', btype)] of
                  (d', c) \<Rightarrow> (d', [], c)))"

section \<open>The specification's rounding, and pages to run the handlers on\<close>



text \<open>A page from a list of elements, each given as id, value and text content.\<close>

definition page :: "(string \<times> string \<times> string) list \<Rightarrow> document" where
  "page es = map_of (map (\<lambda>(i, v, t). (i, \<lparr>val = v, textContent = t\<rparr>)) es)"

definition stale_page :: "string \<Rightarrow> string \<Rightarrow> document" where
  "stale_page odds prob =
     page [(''american_odds'', odds, []), (''prob'', prob, []),
           (''converted_decimal'', [], ''2.5''), (''recommended_stake'', [], ''$20.00''),
           (''odds_hidden'', ''2.5'', [])]"

definition bet_page :: "string \<Rightarrow> string \<Rightarrow> string \<Rightarrow> string \<Rightarrow> document" where
  "bet_page name odds prob amount =
     page [(''bet_name'', name, []), (''odds_hidden'', odds, []), (''prob'', prob, []),
           (''actual_stake'', amount, []), (''sport'', ''NBA'', []), (''bet_type'', [], []),
           (''form_name'', [], []), (''form_odds'', [], []), (''form_prob'', [], []),
           (''form_stake'', [], []), (''form_sport'', [], []), (''form_type'', [], [])]"

section \<open>Facts about the operations\<close>

lemma js_le_Fin [simp]: "js_le (Fin x) (Fin y) = (x \<le> y)"
  by (auto simp: js_le_def)

lemma js_ge_Fin [simp]: "js_ge (Fin x) (Fin y) = (y \<le> x)"
  by (simp add: js_ge_def)

lemma js_gt_Fin [simp]: "js_gt (Fin x) (Fin y) = (y < x)"
  by (simp add: js_gt_def)

lemma js_sub_Fin [simp]: "js_sub (Fin x) (Fin y) = Fin (x - y)"
  by (simp add: js_sub_def)

lemma Math_max_Fin [simp]: "Math_max (Fin x) (Fin y) = Fin (max x y)"
  by (simp add: Math_max_def max_def)

lemma Math_min_Fin [simp]: "Math_min (Fin x) (Fin y) = Fin (min x y)"
  by (auto simp: Math_min_def min_def)

subsection \<open>Rounding to a fixed number of places\<close>

lemma fixed_digits_round: "fixed_digits f x = round (x * 10 ^ f)"
  by (simp add: fixed_digits_def round_def)

text \<open>
  \<open>fixed_digits f x\<close> is the integer that \<^verbatim>\<open>toFixed\<close> is specified to take: no integer
  \<open>m\<close> has \<open>m / 10^f\<close> nearer to \<open>x\<close>, and of two that are equally near it is the larger.
\<close>

lemma scaled_distance:
  "\<bar>of_int k - x * 10 ^ f\<bar> / 10 ^ f = \<bar>of_int k / 10 ^ f - (x :: rat)\<bar>"
proof -
  have "of_int k / 10 ^ f - x = (of_int k - x * 10 ^ f) / 10 ^ f"
    by (simp add: diff_divide_distrib)
  then show ?thesis by (simp add: abs_divide)
qed

lemma fixed_digits_nearest:
  "\<bar>of_int (fixed_digits f x) / 10 ^ f - x\<bar> \<le> \<bar>of_int m / 10 ^ f - x\<bar>"
proof -
  let ?z = "x * 10 ^ f"
  have "\<bar>?z - of_int (round ?z)\<bar> \<le> \<bar>?z - of_int m\<bar>" by (rule round_diff_minimal)
  then have "\<bar>of_int (fixed_digits f x) - ?z\<bar> / 10 ^ f \<le> \<bar>of_int m - ?z\<bar> / 10 ^ f"
    by (simp add: fixed_digits_round abs_minus_commute divide_right_mono)
  then show ?thesis by (simp only: scaled_distance)
qed

lemma fixed_digits_tie_up:
  assumes "\<bar>of_int m / 10 ^ f - x\<bar> \<le> \<bar>of_int (fixed_digits f x) / 10 ^ f - x\<bar>"
  shows "m \<le> fixed_digits f x"
proof (rule ccontr)
  let ?z = "x * 10 ^ f"
  let ?n = "fixed_digits f x"
  assume "\<not> m \<le> ?n"
  then have "?n + 1 \<le> m" by simp
  then have m: "(of_int ?n :: rat) + 1 \<le> of_int m" by linarith
  have up: "?z + 1 / 2 < of_int ?n + 1" unfolding fixed_digits_def by linarith
  have lo: "(of_int ?n :: rat) \<le> ?z + 1 / 2" unfolding fixed_digits_def by linarith
  have "\<bar>of_int m - ?z\<bar> / 10 ^ f \<le> \<bar>of_int ?n - ?z\<bar> / 10 ^ f"
    using assms by (simp only: scaled_distance)
  then have "\<bar>of_int m - ?z\<bar> \<le> \<bar>of_int ?n - ?z\<bar>" by (simp add: divide_le_cancel)
  moreover have "1 / 2 < \<bar>of_int m - ?z\<bar>" using m up by linarith
  moreover have "\<bar>of_int ?n - ?z\<bar> \<le> 1 / 2" using up lo by linarith
  ultimately show False by linarith
qed






subsection \<open>The fixed-point text reads back\<close>

text \<open>
  Below \<open>10^21\<close> the number that \<^verbatim>\<open>Number\<close> reads from the text of \<^verbatim>\<open>x.toFixed(f)\<close> is
  \<open>plus_toFixed f x\<close>: the value-level definition agrees with writing the digits and
  reading them again.
\<close>

lemma digits_of_small: "n < 10 \<Longrightarrow> digits_of n = [digit_char n]"
  by (subst digits_of.simps) simp

lemma digits_of_large:
  "\<not> n < 10 \<Longrightarrow> digits_of n = digits_of (n div 10) @ [digit_char (n mod 10)]"
  by (subst digits_of.simps) simp

lemma char_code_digit_char: "k < 10 \<Longrightarrow> char_code (digit_char k) = 48 + k"
  by (simp add: char_code_def digit_char_def)

lemma is_digit_digit_char: "k < 10 \<Longrightarrow> is_digit (digit_char k)"
  by (simp add: is_digit_def char_code_digit_char)

lemma digits_of_digits: "c \<in> set (digits_of n) \<Longrightarrow> is_digit c"
proof (induction n arbitrary: c rule: digits_of.induct)
  case (1 n)
  show ?case
  proof (cases "n < 10")
    case True
    with "1.prems" show ?thesis by (simp add: digits_of_small is_digit_digit_char)
  next
    case False
    with "1.prems" have "c \<in> set (digits_of (n div 10)) \<or> c = digit_char (n mod 10)"
      by (auto simp: digits_of_large)
    then show ?thesis using "1.IH" [OF False] by (auto simp: is_digit_digit_char)
  qed
qed

lemma digits_of_nonempty: "digits_of n \<noteq> []"
  by (cases "n < 10") (simp_all add: digits_of_small digits_of_large)

lemma dec_value_snoc: "dec_value (ds @ [c]) = dec_value ds * 10 + (char_code c - 48)"
  by (simp add: dec_value_def)

lemma dec_value_digits_of: "dec_value (digits_of n) = n"
proof (induction n rule: digits_of.induct)
  case (1 n)
  show ?case
  proof (cases "n < 10")
    case True
    then show ?thesis by (simp add: digits_of_small dec_value_def char_code_digit_char)
  next
    case False
    then have "dec_value (digits_of n) = dec_value (digits_of (n div 10)) * 10 + n mod 10"
      by (simp add: digits_of_large dec_value_snoc char_code_digit_char)
    with "1.IH" [OF False] show ?thesis by simp
  qed
qed

lemma dec_value_zeros: "dec_value (replicate k CHR ''0'' @ ds) = dec_value ds"
proof -
  have "foldl (\<lambda>acc c. acc * 10 + (char_code c - 48)) 0 (replicate k CHR ''0'') = 0"
    by (induction k) (simp_all add: char_code_def)
  then show ?thesis by (simp add: dec_value_def)
qed

text \<open>A digit is none of the other characters that the readers look for.\<close>

lemma is_digit_not_special:
  assumes "is_digit c"
  shows "\<not> is_ws c" and "c \<noteq> CHR ''+''" and "c \<noteq> CHR ''-''" and "c \<noteq> CHR ''.''"
    and "c \<noteq> CHR ''e''" and "c \<noteq> CHR ''E''" and "c \<noteq> CHR ''I''"
    and "c \<noteq> CHR ''x''" and "c \<noteq> CHR ''X''" and "c \<noteq> CHR ''o''" and "c \<noteq> CHR ''O''"
    and "c \<noteq> CHR ''b''" and "c \<noteq> CHR ''B''"
  using assms by (auto simp: is_digit_def is_ws_def char_code_def)

lemma not_digit_point: "\<not> is_digit CHR ''.''"
  by (simp add: is_digit_def char_code_def)

lemma trim_id:
  assumes "s \<noteq> []" and "\<not> is_ws (hd s)" and "\<not> is_ws (last s)"
  shows "trim s = s"
proof -
  have 1: "dropWhile is_ws s = s" using assms(1,2) by (cases s) auto
  have "dropWhile is_ws (rev s) = rev s"
    using assms(1,3) by (cases "rev s") (auto simp: hd_rev [symmetric] simp del: hd_rev)
  with 1 show ?thesis by (simp add: trim_def)
qed

lemma read_digits_point:
  assumes "\<forall>c\<in>set a. is_digit c" and "a \<noteq> []" and "\<forall>c\<in>set b. is_digit c"
  shows "unsigned_decimal (a @ CHR ''.'' # b) =
           Some (of_nat (dec_value (a @ b)) / 10 ^ length b, [])"
proof -
  have 1: "takeWhile is_digit (a @ CHR ''.'' # b) = a"
    using assms(1) by (simp add: takeWhile_append2 not_digit_point)
  have 2: "dropWhile is_digit (a @ CHR ''.'' # b) = CHR ''.'' # b"
    using assms(1) by (simp add: dropWhile_append2 not_digit_point)
  have 3: "takeWhile is_digit b = b" using assms(3) by (simp add: takeWhile_eq_all_conv)
  have 4: "dropWhile is_digit b = []" using assms(3) by simp
  show ?thesis
    using assms(2) by (simp add: unsigned_decimal_def 1 2 3 4 exponent_part_def)
qed

lemma read_digits:
  assumes "\<forall>c\<in>set a. is_digit c" and "a \<noteq> []"
  shows "unsigned_decimal a = Some (of_nat (dec_value a), [])"
proof -
  have 1: "takeWhile is_digit a = a" using assms(1) by (simp add: takeWhile_eq_all_conv)
  have 2: "dropWhile is_digit a = []" using assms(1) by simp
  show ?thesis
    using assms(2) by (simp add: unsigned_decimal_def 1 2 exponent_part_def)
qed

lemma str_decimal_plain:
  assumes "t \<noteq> []" and "is_digit (hd t)"
  shows "str_decimal t =
           (case unsigned_decimal t of None \<Rightarrow> None | Some (v, r) \<Rightarrow> Some (Fin v, r))"
proof -
  obtain c u where t: "t = c # u" using assms(1) by (cases t) auto
  with assms(2) have d: "is_digit c" by simp
  have 1: "split_sign t = (1, t)" using is_digit_not_special [OF d] by (simp add: t split_sign_def)
  have 2: "take 8 t \<noteq> ''Infinity''" using is_digit_not_special [OF d] by (auto simp: t)
  show ?thesis by (simp add: str_decimal_def 1 2 split: option.splits)
qed

lemma str_decimal_minus:
  assumes "t \<noteq> []" and "is_digit (hd t)"
  shows "str_decimal (CHR ''-'' # t) =
           (case unsigned_decimal t of None \<Rightarrow> None | Some (v, r) \<Rightarrow> Some (Fin (- v), r))"
proof -
  obtain c u where t: "t = c # u" using assms(1) by (cases t) auto
  with assms(2) have d: "is_digit c" by simp
  have 1: "split_sign (CHR ''-'' # t) = (- 1, t)" by (simp add: split_sign_def)
  have 2: "take 8 t \<noteq> ''Infinity''" using is_digit_not_special [OF d] by (auto simp: t)
  show ?thesis by (simp add: str_decimal_def 1 2 split: option.splits)
qed

lemma nondecimal_fixed:
  assumes "\<forall>c\<in>set t. is_digit c \<or> c = CHR ''.''"
  shows "nondecimal t = None" and "nondecimal (CHR ''-'' # t) = None"
proof -
  show "nondecimal (CHR ''-'' # t) = None"
    by (cases t) (simp_all add: nondecimal_def)
  show "nondecimal t = None"
  proof (cases t)
    case Nil
    then show ?thesis by (simp add: nondecimal_def)
  next
    case (Cons c0 u)
    show ?thesis
    proof (cases u)
      case Nil
      with Cons show ?thesis by (simp add: nondecimal_def)
    next
      case (Cons c1 ds)
      with assms \<open>t = c0 # u\<close> have "is_digit c1 \<or> c1 = CHR ''.''" by simp
      then have "c1 \<noteq> CHR ''x'' \<and> c1 \<noteq> CHR ''X'' \<and> c1 \<noteq> CHR ''o'' \<and> c1 \<noteq> CHR ''O'' \<and>
                 c1 \<noteq> CHR ''b'' \<and> c1 \<noteq> CHR ''B''"
      proof
        assume "is_digit c1"
        from is_digit_not_special(8-13) [OF this] show ?thesis by (intro conjI)
      next
        assume "c1 = CHR ''.''"
        then show ?thesis by simp
      qed
      with Cons \<open>t = c0 # u\<close> show ?thesis by (simp add: nondecimal_def)
    qed
  qed
qed

lemma is_digit_zero: "is_digit CHR ''0''"
  by (simp add: is_digit_def char_code_def)

lemma not_ws_minus: "\<not> is_ws CHR ''-''"
  by (simp add: is_ws_def)

lemma StringToNumber_fixed:
  assumes body: "unsigned_decimal body = Some (v, [])"
    and ne: "body \<noteq> []" and h: "is_digit (hd body)" and l: "is_digit (last body)"
    and cs: "\<forall>c\<in>set body. is_digit c \<or> c = CHR ''.''"
  shows "StringToNumber body = Fin v" and "StringToNumber (CHR ''-'' # body) = Fin (- v)"
proof -
  have t1: "trim body = body"
    using ne h l by (intro trim_id) (auto dest: is_digit_not_special(1))
  have t2: "trim (CHR ''-'' # body) = CHR ''-'' # body"
    using ne l by (intro trim_id) (auto simp: not_ws_minus dest: is_digit_not_special(1))
  show "StringToNumber body = Fin v"
    using ne by (simp add: StringToNumber_def t1 nondecimal_fixed(1) [OF cs]
        str_decimal_plain [OF ne h] body)
  show "StringToNumber (CHR ''-'' # body) = Fin (- v)"
    by (simp add: StringToNumber_def t2 nondecimal_fixed(2) [OF cs]
        str_decimal_minus [OF ne h] body)
qed

lemma toFixed_reads_back:
  assumes "\<bar>q\<bar> < 10 ^ 21"
  shows "StringToNumber (toFixed ts f (Fin q)) = plus_toFixed f (Fin q)"
proof -
  define y where "y = \<bar>q\<bar>"
  define n where "n = nat (fixed_digits f y)"
  define m where "m = replicate (f + 1 - length (digits_of n)) CHR ''0'' @ digits_of n"
  define body where
    "body = (if f = 0 then m else take (length m - f) m @ CHR ''.'' # drop (length m - f) m)"
  have y0: "0 \<le> y" by (simp add: y_def)
  then have "0 \<le> y * 10 ^ f + 1 / 2" by simp
  then have "0 \<le> fixed_digits f y" unfolding fixed_digits_def by simp
  then have n: "(of_nat n :: rat) = of_int (fixed_digits f y)" by (simp add: n_def)
  have md: "\<forall>c\<in>set m. is_digit c"
    by (auto simp: m_def is_digit_zero digits_of_digits)
  have ml: "f + 1 \<le> length m" by (simp add: m_def)
  have mv: "dec_value m = n" by (simp add: m_def dec_value_zeros dec_value_digits_of)
  have mne: "m \<noteq> []" using ml by auto
  have ud: "unsigned_decimal body = Some (fixed_value f y, [])"
  proof (cases "f = 0")
    case True
    then show ?thesis
      using read_digits [OF md mne] by (simp add: body_def mv n fixed_value_def)
  next
    case False
    let ?a = "take (length m - f) m" and ?b = "drop (length m - f) m"
    have a: "\<forall>c\<in>set ?a. is_digit c" using md by (auto dest: in_set_takeD)
    have b: "\<forall>c\<in>set ?b. is_digit c" using md by (auto dest: in_set_dropD)
    have ane: "?a \<noteq> []" using ml by auto
    have lb: "length ?b = f" using ml by simp
    have "unsigned_decimal (?a @ CHR ''.'' # ?b) =
            Some (of_nat (dec_value (?a @ ?b)) / 10 ^ length ?b, [])"
      by (rule read_digits_point [OF a ane b])
    then have "unsigned_decimal (?a @ CHR ''.'' # ?b) = Some (of_nat n / 10 ^ f, [])"
      by (simp only: append_take_drop_id mv lb)
    then show ?thesis
      using False by (simp only: body_def n fixed_value_def if_False)
  qed
  have bne: "body \<noteq> []" using mne by (simp add: body_def)
  have cs: "\<forall>c\<in>set body. is_digit c \<or> c = CHR ''.''"
    using md by (auto simp: body_def dest: in_set_takeD in_set_dropD)
  have hd: "is_digit (hd body)"
  proof (cases "f = 0")
    case True
    then show ?thesis using md mne by (simp add: body_def)
  next
    case False
    have "take (length m - f) m \<noteq> []" using ml by auto
    then have "hd body = hd m" using False by (simp add: body_def hd_append)
    then show ?thesis using md mne by simp
  qed
  have la: "is_digit (last body)"
  proof (cases "f = 0")
    case True
    then show ?thesis using md mne by (simp add: body_def)
  next
    case False
    have "drop (length m - f) m \<noteq> []" using ml False by auto
    then have "last body = last m" using False by (simp add: body_def)
    then show ?thesis using md mne by simp
  qed
  have tf: "toFixed ts f (Fin q) = (if q < 0 then CHR ''-'' # body else body)"
    using assms by (simp add: toFixed_def Let_def body_def m_def n_def y_def)
  show ?thesis
  proof (cases "q < 0")
    case True
    then have "y = - q" by (simp add: y_def)
    with True show ?thesis
      using StringToNumber_fixed(2) [OF ud bne hd la cs] by (simp add: tf)
  next
    case False
    then have "y = q" by (simp add: y_def)
    with False show ?thesis
      using StringToNumber_fixed(1) [OF ud bne hd la cs] by (simp add: tf)
  qed
qed

text \<open>The stake of the first reference evaluation, as it is displayed.\<close>

lemma toFixed_example:
  "toFixed (\<lambda>q. []) 2 (computeKelly (Fin 1000) (Fin (2 / 100)) (Fin 2) (Fin (55 / 100))) = ''20.00''"
  by code_simp

subsection \<open>The conversion on finite numbers\<close>



subsection \<open>The stake on finite numbers\<close>








subsection \<open>The submit handler on an incomplete page\<close>

text \<open>
  The handler reads \<^verbatim>\<open>sport\<close> and \<^verbatim>\<open>bet_type\<close> before it checks the four fields: on a
  page without the element \<^verbatim>\<open>sport\<close> it throws at line 85, and neither alerts nor
  prevents the default action, whatever the fields hold.
\<close>

lemma submit_throws_without_sport:
  assumes "d ''bet_name'' = Some e1" and "d ''odds_hidden'' = Some e2" and "d ''prob'' = Some e3"
    and "d ''actual_stake'' = Some e4" and "d ''sport'' = None"
  shows "betForm_submit d = (d, [], Threw)"
  using assms by (simp add: betForm_submit_def submit_reads_def)

section \<open>The claims\<close>

subsection \<open>C1: the conversion is the rounded formula\<close>



subsection \<open>C2: a probability outside the open unit interval\<close>

text \<open>
  Claim C2 says that with \<open>p \<le> 0\<close> or \<open>p \<ge> 1\<close> the floor of 0.10 still applies and
  \<^verbatim>\<open>computeKelly\<close> returns 0.10. The code returns at line 11, before the floor: the value
  is 0 at \<open>p = 1\<close> and at \<open>p = 0\<close>.
\<close>

theorem kelly_invalid_probability_not_floored:
  "js_ge (Fin 1) (Fin 1) \<and> computeKelly (Fin 1000) (Fin (2 / 100)) (Fin 2) (Fin 1) = Fin 0 \<and>
   js_le (Fin 0) (Fin 0) \<and> computeKelly (Fin 1000) (Fin (2 / 100)) (Fin 2) (Fin 0) = Fin 0 \<and>
   Fin 0 \<noteq> Fin (10 / 100)"
  by code_simp

text \<open>
  Claim C2 as amended. For every bankroll, cap fraction and odds, a probability with
  \<open>p \<le> 0\<close> or \<open>p \<ge> 1\<close> makes \<^verbatim>\<open>computeKelly\<close> return 0: the early return is not floored.
\<close>

theorem kelly_invalid_probability_zero:
  "js_le p (Fin 0) \<or> js_ge p (Fin 1) \<Longrightarrow> computeKelly B c od p = Fin 0"
  by (auto simp: computeKelly_def)

theorem kelly_invalid_probability_zero_witness:
  "js_ge (Fin 1) (Fin 1) \<and> computeKelly (Fin 1000) (Fin (2 / 100)) (Fin 2) (Fin 1) = Fin 0 \<and>
   js_le (Fin (- 1 / 2)) (Fin 0) \<and>
   computeKelly (Fin 1000) (Fin (2 / 100)) (Fin 2) (Fin (- 1 / 2)) = Fin 0"
  using kelly_invalid_probability_zero [of "Fin 1" "Fin 1000" "Fin (2 / 100)" "Fin 2"]
    kelly_invalid_probability_zero [of "Fin (- 1 / 2)" "Fin 1000" "Fin (2 / 100)" "Fin 2"]
  by simp

subsection \<open>C3: the range of the recommended stake\<close>




subsection \<open>C4: the two reference evaluations\<close>

text \<open>
  Claim C4. \<^verbatim>\<open>computeKelly(1000, 0.02, 2.0, 0.55)\<close> is 20.00: the Kelly fraction is 0.10,
  the raw stake 100 and the cap 20. \<^verbatim>\<open>computeKelly(1000, 0.02, 1.5, 0.5)\<close> is 0.10: the
  fraction \<open>-0.5\<close> is clamped to 0 and the stake 0 is floored to 0.10.
\<close>

theorem kelly_reference_values:
  "computeKelly (Fin 1000) (Fin (2 / 100)) (Fin 2) (Fin (55 / 100)) = Fin 20 \<and>
   kelly_f (js_sub (Fin 2) (Fin 1)) (Fin (55 / 100)) = Fin (10 / 100) \<and>
   js_mul (Fin (10 / 100)) (Fin 1000) = Fin 100 \<and>
   js_mul (Fin (2 / 100)) (Fin 1000) = Fin 20 \<and>
   kelly_recommended (Fin 1000) (Fin (2 / 100)) (Fin (10 / 100)) = Fin 20 \<and>
   computeKelly (Fin 1000) (Fin (2 / 100)) (Fin (3 / 2)) (Fin (1 / 2)) = Fin (10 / 100) \<and>
   js_div (js_sub (js_mul (Fin (1 / 2)) (Fin (1 / 2))) (js_sub (Fin 1) (Fin (1 / 2)))) (Fin (1 / 2)) =
     Fin (- (1 / 2)) \<and>
   kelly_f (js_sub (Fin (3 / 2)) (Fin 1)) (Fin (1 / 2)) = Fin 0 \<and>
   kelly_recommended (Fin 1000) (Fin (2 / 100)) (Fin 0) = Fin (10 / 100)"
  by code_simp

subsection \<open>C5: when the conversion returns null\<close>

text \<open>
  Claim C5. \<^verbatim>\<open>americanToDecimal\<close> returns \<^verbatim>\<open>null\<close> exactly when its input, as
  \<^verbatim>\<open>Number\<close> reads it, is not finite. The input 0 is finite and goes through the branch
  for negative odds, \<open>1 + 100/\<bar>a\<bar>\<close>, which is \<^verbatim>\<open>Infinity\<close> there; so does the text
  \<^verbatim>\<open>0\<close> of a field, and the text of an empty field, which \<^verbatim>\<open>Number\<close> reads as 0.
\<close>

theorem null_iff_not_finite:
  "(americanToDecimal a = None \<longleftrightarrow> \<not> isFinite (Number a)) \<and>
   (americanToDecimal (JNum n) = None \<longleftrightarrow> \<not> isFinite n) \<and>
   isFinite (Number (JNum (Fin 0))) \<and>
   \<not> js_gt (Fin 0) (Fin 0) \<and>
   americanToDecimal (JNum (Fin 0)) =
     Some (plus_toFixed 4 (js_add (js_div (Fin 100) (Math_abs (Fin 0))) (Fin 1))) \<and>
   americanToDecimal (JNum (Fin 0)) = Some PInf \<and>
   americanToDecimal (JStr ''0'') = Some PInf \<and>
   americanToDecimal (JStr []) = Some PInf"
proof -
  have 1: "americanToDecimal (JStr ''0'') = Some PInf" by code_simp
  have 2: "americanToDecimal (JStr []) = Some PInf" by code_simp
  show ?thesis using 1 2 by (simp add: americanToDecimal_def Let_def)
qed

subsection \<open>C6: decimal odds and 1\<close>




subsection \<open>C7: the conversion is monotone\<close>



subsection \<open>C8: the submit handler checks four fields\<close>

text \<open>
  Claim C8. On a page that has the six elements the handler reads: if the name, the
  hidden odds, the probability or the stake is empty, the handler alerts the user and
  prevents the default action, sends no request and leaves every element as it was; if
  the four are non-empty (and the six hidden form fields are on the page) it writes the
  six hidden form fields and neither alerts nor prevents the default action, so that the
  submission proceeds.
\<close>

theorem submit_checks_fields:
  assumes "d ''bet_name'' = Some e1" and "d ''odds_hidden'' = Some e2" and "d ''prob'' = Some e3"
    and "d ''actual_stake'' = Some e4" and "d ''sport'' = Some e5" and "d ''bet_type'' = Some e6"
  shows "(val e1 = [] \<or> val e2 = [] \<or> val e3 = [] \<or> val e4 = [] \<longrightarrow>
            betForm_submit d = (d, [Alert ''Please fill in all fields.'', PreventDefault], Returned)) \<and>
         (val e1 \<noteq> [] \<and> val e2 \<noteq> [] \<and> val e3 \<noteq> [] \<and> val e4 \<noteq> [] \<and>
          d ''form_name'' = Some f1 \<and> d ''form_odds'' = Some f2 \<and> d ''form_prob'' = Some f3 \<and>
          d ''form_stake'' = Some f4 \<and> d ''form_sport'' = Some f5 \<and> d ''form_type'' = Some f6 \<longrightarrow>
            betForm_submit d =
              (d(''form_name'' \<mapsto> f1\<lparr>val := val e1\<rparr>,
                 ''form_odds'' \<mapsto> f2\<lparr>val := val e2\<rparr>,
                 ''form_prob'' \<mapsto> f3\<lparr>val := val e3\<rparr>,
                 ''form_stake'' \<mapsto> f4\<lparr>val := val e4\<rparr>,
                 ''form_sport'' \<mapsto> f5\<lparr>val := val e5\<rparr>,
                 ''form_type'' \<mapsto> f6\<lparr>val := or_else (val e6) ''Moneyline''\<rparr>), [], Returned))"
proof -
  have r: "submit_reads d =
             Some (val e1, val e2, val e3, val e4, or_else (val e5) [], or_else (val e6) ''Moneyline'')"
    using assms by (simp add: submit_reads_def)
  have e: "or_else (val e5) [] = val e5" by (simp add: or_else_def)
  show ?thesis
    using r e by (auto simp: betForm_submit_def setValue_def)
qed

text \<open>
  A bet with no stake entered is stopped; with the stake 20 entered the six hidden fields
  receive the values, the bet type falling back to \<^verbatim>\<open>Moneyline\<close>.
\<close>

theorem submit_checks_fields_witness:
  "betForm_submit (bet_page ''Lakers'' ''2.5'' ''0.55'' []) =
     (bet_page ''Lakers'' ''2.5'' ''0.55'' [],
      [Alert ''Please fill in all fields.'', PreventDefault], Returned) \<and>
   snd (betForm_submit (bet_page ''Lakers'' ''2.5'' ''0.55'' ''20'')) = ([], Returned) \<and>
   map (\<lambda>i. map_option val (fst (betForm_submit (bet_page ''Lakers'' ''2.5'' ''0.55'' ''20'')) i))
     [''form_name'', ''form_odds'', ''form_prob'', ''form_stake'', ''form_sport'', ''form_type''] =
     [Some ''Lakers'', Some ''2.5'', Some ''0.55'', Some ''20'', Some ''NBA'', Some ''Moneyline'']"
proof -
  let ?e = "\<lambda>v. \<lparr>val = v, textContent = []\<rparr>"
  have a: "betForm_submit (bet_page ''Lakers'' ''2.5'' ''0.55'' []) =
     (bet_page ''Lakers'' ''2.5'' ''0.55'' [],
      [Alert ''Please fill in all fields.'', PreventDefault], Returned)"
    using submit_checks_fields [of "bet_page ''Lakers'' ''2.5'' ''0.55'' []"
        "?e ''Lakers''" "?e ''2.5''" "?e ''0.55''" "?e []" "?e ''NBA''" "?e []"]
    by (simp add: bet_page_def page_def)
  have b: "betForm_submit (bet_page ''Lakers'' ''2.5'' ''0.55'' ''20'') =
     ((bet_page ''Lakers'' ''2.5'' ''0.55'' ''20'')
        (''form_name'' \<mapsto> ?e ''Lakers'', ''form_odds'' \<mapsto> ?e ''2.5'',
         ''form_prob'' \<mapsto> ?e ''0.55'', ''form_stake'' \<mapsto> ?e ''20'',
         ''form_sport'' \<mapsto> ?e ''NBA'', ''form_type'' \<mapsto> ?e ''Moneyline''),
      [], Returned)"
    using submit_checks_fields [of "bet_page ''Lakers'' ''2.5'' ''0.55'' ''20''"
        "?e ''Lakers''" "?e ''2.5''" "?e ''0.55''" "?e ''20''" "?e ''NBA''" "?e []"
        "?e []" "?e []" "?e []" "?e []" "?e []" "?e []"]
    by (simp add: bet_page_def page_def or_else_def)
  show ?thesis by (simp add: a b)
qed

subsection \<open>C9: zero, or at least the floor\<close>




subsection \<open>C10: the sentinel leaves the converted odds on display\<close>

text \<open>
  Claim C10. In \<^verbatim>\<open>updateRecommended\<close>, when the conversion of the odds returns \<^verbatim>\<open>null\<close>
  or the parsed probability is not finite, the recommended stake shows the dash, the
  hidden odds field is set to the empty string, and nothing else on the page changes: the
  element \<^verbatim>\<open>converted_decimal\<close> keeps the value it had.
\<close>

theorem sentinel_leaves_converted:
  assumes "d ''american_odds'' = Some a" and "d ''prob'' = Some pr"
    and "d ''recommended_stake'' = Some r" and "d ''odds_hidden'' = Some h"
    and "americanToDecimal (JStr (val a)) = None \<or> \<not> isFinite (parseFloat (val pr))"
  shows "updateRecommended ts bankroll percentCap d =
           (d(''recommended_stake'' \<mapsto> r\<lparr>textContent := em_dash\<rparr>,
              ''odds_hidden'' \<mapsto> h\<lparr>val := []\<rparr>), Returned) \<and>
         fst (updateRecommended ts bankroll percentCap d) ''converted_decimal'' =
           d ''converted_decimal''"
proof -
  have s: "show_sentinel d =
             (d(''recommended_stake'' \<mapsto> r\<lparr>textContent := em_dash\<rparr>,
                ''odds_hidden'' \<mapsto> h\<lparr>val := []\<rparr>), Returned)"
    using assms(3,4) by (simp add: show_sentinel_def setText_def setValue_def)
  have "updateRecommended ts bankroll percentCap d = show_sentinel d"
    using assms(1,2,5) by (auto simp: updateRecommended_def Let_def split: option.splits)
  with s show ?thesis by simp
qed

text \<open>
  The page shows the odds 2.5 of an earlier input; the odds field now reads \<^verbatim>\<open>abc\<close>.
  The stake becomes the dash, the hidden odds are cleared, and the display still shows 2.5.
\<close>

theorem sentinel_leaves_converted_witness:
  "americanToDecimal (JStr ''abc'') = None \<and>
   map_option textContent
     (fst (updateRecommended (\<lambda>q. ''?'') (Fin 1000) (Fin (2 / 100)) (stale_page ''abc'' ''0.55''))
        ''recommended_stake'') = Some em_dash \<and>
   map_option val
     (fst (updateRecommended (\<lambda>q. ''?'') (Fin 1000) (Fin (2 / 100)) (stale_page ''abc'' ''0.55''))
        ''odds_hidden'') = Some [] \<and>
   map_option textContent
     (fst (updateRecommended (\<lambda>q. ''?'') (Fin 1000) (Fin (2 / 100)) (stale_page ''abc'' ''0.55''))
        ''converted_decimal'') = Some ''2.5'' \<and>
   snd (updateRecommended (\<lambda>q. ''?'') (Fin 1000) (Fin (2 / 100)) (stale_page ''abc'' ''0.55'')) =
     Returned"
proof -
  have n: "americanToDecimal (JStr ''abc'') = None" by code_simp
  show ?thesis
    using sentinel_leaves_converted [of "stale_page ''abc'' ''0.55''"
        "\<lparr>val = ''abc'', textContent = []\<rparr>" "\<lparr>val = ''0.55'', textContent = []\<rparr>"
        "\<lparr>val = [], textContent = ''$20.00''\<rparr>" "\<lparr>val = ''2.5'', textContent = []\<rparr>"
        "\<lambda>q. ''?''" "Fin 1000" "Fin (2 / 100)"] n
    by (simp add: stale_page_def page_def)
qed

end
